theory Spec2Isabelle
  imports Complex_Main "HOL-Library.Char_ord" "HOL-Library.List_Lexorder" "HOL-Library.AList"
begin

section \<open>Python primitives used by the sources\<close>

text \<open>
  Strings are lists of characters over the ASCII range: a character outside it is left
  alone by \<open>lower\<close>, and is neither a digit nor white space. Python integers are
  \<open>int\<close>. A Python float is an IEEE 754 binary64 value: its finite values are the
  rationals that \<open>round_double\<close> produces, and every arithmetic step rounds the exact
  result to the nearest such value, ties to the even significand.
\<close>

datatype error = ValueError | IndexError | OverflowError

subsection \<open>Indexing\<close>

definition getitem :: "'a list \<Rightarrow> int \<Rightarrow> error + 'a" where
  \<comment> \<open>\<open>xs[i]\<close>: a negative index counts from the end, an index out of range raises\<close>
  "getitem xs i =
     (if 0 \<le> i \<and> i < int (length xs) then Inr (xs ! nat i)
      else if i < 0 \<and> - int (length xs) \<le> i then Inr (xs ! nat (int (length xs) + i))
      else Inl IndexError)"

definition slice_to :: "'a list \<Rightarrow> int \<Rightarrow> 'a list" where
  \<comment> \<open>\<open>xs[0:k]\<close>: a negative bound counts from the end, and the slice is clipped\<close>
  "slice_to xs k = take (nat (if k < 0 then int (length xs) + k else k)) xs"

subsection \<open>Characters and strings\<close>

definition isdigit :: "char \<Rightarrow> bool" where
  "isdigit c = (CHR ''0'' \<le> c \<and> c \<le> CHR ''9'')"

definition isspace :: "char \<Rightarrow> bool" where
  \<comment> \<open>the white space that \<open>int\<close> and \<open>float\<close> skip around a numeral: tab, line feed,
      vertical tab, form feed, carriage return and the blank\<close>
  "isspace c = (let n = (of_char c :: nat) in (9 \<le> n \<and> n \<le> 13) \<or> n = 32)"

definition lower_char :: "char \<Rightarrow> char" where
  "lower_char c =
     (case map_of (zip ''ABCDEFGHIJKLMNOPQRSTUVWXYZ'' ''abcdefghijklmnopqrstuvwxyz'') c of
        Some l \<Rightarrow> l
      | None \<Rightarrow> c)"

definition lower :: "string \<Rightarrow> string" where
  "lower s = map lower_char s"

definition startswith :: "string \<Rightarrow> string \<Rightarrow> bool" where
  "startswith s p = (take (length p) s = p)"

definition endswith :: "string \<Rightarrow> string \<Rightarrow> bool" where
  "endswith s p = (length p \<le> length s \<and> drop (length s - length p) s = p)"

definition strip :: "string \<Rightarrow> string" where
  "strip s = rev (dropWhile isspace (rev (dropWhile isspace s)))"

text \<open>
  \<open>str.replace(old, new)\<close>: every occurrence of \<open>old\<close>, found from the left and not
  overlapping, becomes \<open>new\<close>. With an empty \<open>old\<close>, Python puts \<open>new\<close> before every
  character and at the end.
\<close>

function replace_nonempty :: "string \<Rightarrow> string \<Rightarrow> string \<Rightarrow> string" where
  "replace_nonempty old new s =
     (if old = [] \<or> s = [] then s
      else if take (length old) s = old
        then new @ replace_nonempty old new (drop (length old) s)
        else hd s # replace_nonempty old new (tl s))"
  by pat_completeness auto
termination
  by (relation "measure (\<lambda>(old, new, s). length s)") auto

definition replace :: "string \<Rightarrow> string \<Rightarrow> string \<Rightarrow> string" where
  "replace old new s =
     (if old = [] then new @ concat (map (\<lambda>c. c # new) s) else replace_nonempty old new s)"

text \<open>
  \<open>str.replace(old, new, count)\<close> with \<open>count \<ge> 0\<close> and a nonempty \<open>old\<close>: at most
  \<open>count\<close> occurrences are replaced.
\<close>

fun replace_count :: "string \<Rightarrow> string \<Rightarrow> nat \<Rightarrow> string \<Rightarrow> string" where
  "replace_count old new 0 s = s"
| "replace_count old new (Suc n) [] = []"
| "replace_count old new (Suc n) (c # cs) =
     (if old \<noteq> [] \<and> take (length old) (c # cs) = old
        then new @ replace_count old new n (drop (length old) (c # cs))
        else c # replace_count old new (Suc n) cs)"

subsection \<open>Decimal numerals\<close>

definition digit_value :: "char \<Rightarrow> int" where
  "digit_value c = of_char c - 48"

definition digits_value :: "string \<Rightarrow> int" where
  "digits_value ds = foldl (\<lambda>acc c. 10 * acc + digit_value c) 0 ds"

definition digit_char :: "int \<Rightarrow> char" where
  "digit_char d = ''0123456789'' ! nat d"

function show_int :: "int \<Rightarrow> string" where
  \<comment> \<open>the decimal digits of a non-negative integer\<close>
  "show_int n = (if n < 10 then [digit_char n] else show_int (n div 10) @ [digit_char (n mod 10)])"
  by pat_completeness auto
termination
  by (relation "measure nat") auto

declare show_int.simps [simp del]

text \<open>
  Python allows an underscore in a numeric string only between two digits; the
  underscores are then dropped.
\<close>

fun underscores_ok :: "char \<Rightarrow> string \<Rightarrow> bool" where
  "underscores_ok prev [] = (prev \<noteq> CHR ''_'')"
| "underscores_ok prev (c # cs) =
     ((if c = CHR ''_'' then isdigit prev else if prev = CHR ''_'' then isdigit c else True)
      \<and> underscores_ok c cs)"

definition drop_underscores :: "string \<Rightarrow> string" where
  "drop_underscores s = filter (\<lambda>c. c \<noteq> CHR ''_'') s"

definition split_sign :: "string \<Rightarrow> bool \<times> string" where
  \<comment> \<open>an optional sign; the flag says the value is negated\<close>
  "split_sign s =
     (case s of
        [] \<Rightarrow> (False, [])
      | c # cs \<Rightarrow> if c = CHR ''-'' then (True, cs) else if c = CHR ''+'' then (False, cs)
                 else (False, s))"

text \<open>
  \<open>int(s)\<close> in base ten: white space around, a sign, digits with single underscores.
  The bound that recent versions of Python put on the number of digits is left out.
\<close>

definition py_int :: "string \<Rightarrow> error + int" where
  "py_int s =
     (let t = strip s in
      if \<not> underscores_ok (CHR ''x'') t then Inl ValueError
      else let (neg, ds) = split_sign (drop_underscores t) in
        if ds = [] \<or> \<not> list_all isdigit ds then Inl ValueError
        else Inr (if neg then - digits_value ds else digits_value ds))"

subsection \<open>Binary64 floats\<close>

datatype pyfloat = Finite rat | Inf bool | NaN

definition pow2 :: "int \<Rightarrow> rat" where
  "pow2 e = (if 0 \<le> e then 2 ^ nat e else 1 / 2 ^ nat (- e))"

function bit_length :: "int \<Rightarrow> int" where
  \<comment> \<open>\<open>n.bit_length()\<close> of a non-negative integer\<close>
  "bit_length n = (if n \<le> 0 then 0 else 1 + bit_length (n div 2))"
  by pat_completeness auto
termination
  by (relation "measure nat") auto

declare bit_length.simps [simp del]

definition binade :: "rat \<Rightarrow> int" where
  \<comment> \<open>for \<open>x \<noteq> 0\<close>, the \<open>e\<close> with \<open>2 ^ e \<le> \<bar>x\<bar> < 2 ^ (e + 1)\<close>\<close>
  "binade x =
     (let a = \<bar>x\<bar>
      in if 1 \<le> a then bit_length \<lfloor>a\<rfloor> - 1 else - bit_length (\<lceil>1 / a\<rceil> - 1))"

definition round_half_even :: "rat \<Rightarrow> int" where
  "round_half_even x =
     (let f = \<lfloor>x\<rfloor>; d = x - of_int f
      in if d < 1 / 2 then f else if 1 / 2 < d then f + 1 else if even f then f else f + 1)"

definition round_double :: "rat \<Rightarrow> rat" where
  \<comment> \<open>nearest value with a 53-bit significand, subnormal below \<open>2 ^ -1022\<close>; the
      exponent is not bounded above here, the callers test for overflow\<close>
  "round_double x =
     (if x = 0 then 0
      else let ulp = pow2 (max (binade x) (- 1022) - 52)
           in of_int (round_half_even (x / ulp)) * ulp)"

definition to_float :: "rat \<Rightarrow> pyfloat" where
  \<comment> \<open>the float an exact result rounds to; beyond the largest finite value it is infinite\<close>
  "to_float x =
     (let r = round_double x in if pow2 1024 \<le> \<bar>r\<bar> then Inf (r < 0) else Finite r)"

definition float_of_int :: "int \<Rightarrow> error + rat" where
  \<comment> \<open>\<open>float(n)\<close> of an integer raises OverflowError where the result would be infinite\<close>
  "float_of_int n =
     (case to_float (of_int n) of Finite r \<Rightarrow> Inr r | _ \<Rightarrow> Inl OverflowError)"

definition float_mul_int :: "pyfloat \<Rightarrow> int \<Rightarrow> pyfloat" where
  \<comment> \<open>\<open>x * m\<close> for a float \<open>x\<close> and a positive integer \<open>m\<close> that a float holds exactly\<close>
  "float_mul_int x m =
     (case x of Finite r \<Rightarrow> to_float (r * of_int m) | Inf neg \<Rightarrow> Inf neg | NaN \<Rightarrow> NaN)"

definition float_div_int :: "rat \<Rightarrow> int \<Rightarrow> rat" where
  \<comment> \<open>\<open>x / m\<close> for a finite float \<open>x\<close> and \<open>m\<close> one of 1000 and 1024: the quotient is
      smaller than \<open>x\<close>, so it is finite\<close>
  "float_div_int x m = round_double (x / of_int m)"

definition trunc :: "rat \<Rightarrow> int" where
  "trunc x = (if 0 \<le> x then \<lfloor>x\<rfloor> else \<lceil>x\<rceil>)"

definition int_of_float :: "pyfloat \<Rightarrow> error + int" where
  \<comment> \<open>\<open>int(x)\<close> truncates; it raises OverflowError on an infinity and ValueError on NaN\<close>
  "int_of_float x =
     (case x of Finite r \<Rightarrow> Inr (trunc r) | Inf _ \<Rightarrow> Inl OverflowError | NaN \<Rightarrow> Inl ValueError)"

text \<open>
  \<open>float(s)\<close>: white space around, underscores between digits, a sign, then
  \<open>inf\<close>, \<open>infinity\<close> or \<open>nan\<close> in any case, or a decimal numeral with at least
  one digit before or after the point and an optional exponent.
\<close>

definition parse_exponent :: "string \<Rightarrow> int option" where
  \<comment> \<open>what follows the mantissa: nothing, or \<open>e\<close>, a sign and at least one digit\<close>
  "parse_exponent s =
     (case s of
        [] \<Rightarrow> Some 0
      | c # cs \<Rightarrow>
          if c = CHR ''e'' \<or> c = CHR ''E'' then
            (let (neg, ds) = split_sign cs in
             if ds = [] \<or> \<not> list_all isdigit ds then None
             else Some (if neg then - digits_value ds else digits_value ds))
          else None)"

definition pow10 :: "int \<Rightarrow> rat" where
  "pow10 e = (if 0 \<le> e then 10 ^ nat e else 1 / 10 ^ nat (- e))"

definition parse_decimal :: "string \<Rightarrow> rat option" where
  "parse_decimal s =
     (let ip = takeWhile isdigit s; r1 = dropWhile isdigit s;
          has_point = (r1 \<noteq> [] \<and> hd r1 = CHR ''.'');
          fp = (if has_point then takeWhile isdigit (tl r1) else []);
          r2 = (if has_point then dropWhile isdigit (tl r1) else r1)
      in if ip = [] \<and> fp = [] then None
         else case parse_exponent r2 of
                None \<Rightarrow> None
              | Some ex \<Rightarrow>
                  Some (of_int (digits_value (ip @ fp)) * pow10 (ex - int (length fp))))"

definition py_float :: "string \<Rightarrow> error + pyfloat" where
  "py_float s =
     (let t = strip s in
      if \<not> underscores_ok (CHR ''x'') t then Inl ValueError
      else let (neg, body) = split_sign (drop_underscores t) in
        if lower body = ''inf'' \<or> lower body = ''infinity'' then Inr (Inf neg)
        else if lower body = ''nan'' then Inr NaN
        else case parse_decimal body of
               None \<Rightarrow> Inl ValueError
             | Some v \<Rightarrow> Inr (to_float (if neg then - v else v)))"

section \<open>units.py\<close>

definition units :: "(char \<times> int) list" where
  "units =
     [(CHR ''k'', 1000), (CHR ''m'', 1000000), (CHR ''g'', 1000000000),
      (CHR ''t'', 1000000000000), (CHR ''p'', 1000000000000000),
      (CHR ''e'', 1000000000000000000)]"

definition strip_unit_suffixes :: "string \<Rightarrow> string" where
  \<comment> \<open>the loop over the unit letters, in the order of the dictionary\<close>
  "strip_unit_suffixes s =
     foldl (\<lambda>byte_string unit.
              replace (unit # ''b'') [unit] (replace (unit # ''b/s'') [unit] byte_string))
       s (map fst units)"

definition byte_string_to_byte_count :: "string \<Rightarrow> error + int" where
  "byte_string_to_byte_count s =
     (let byte_string = strip_unit_suffixes (lower s) in
      if byte_string = [] then Inl IndexError
      else let multiplier_char = last byte_string in
        if isdigit multiplier_char then
          (if CHR ''.'' \<in> set byte_string then Inl ValueError else py_int byte_string)
        else case map_of units multiplier_char of
               None \<Rightarrow> Inl ValueError
             | Some multiplier \<Rightarrow>
                 (case py_float (butlast byte_string) of
                    Inl e \<Rightarrow> Inl e
                  | Inr x \<Rightarrow> int_of_float (float_mul_int x multiplier)))"

definition unit_names :: "string list" where
  "unit_names = [''K'', ''M'', ''G'', ''T'', ''P'', ''E'', ''Z'', ''Y'']"

text \<open>
  The \<open>while True\<close> loop: divide, count, and leave once the integer part is below the
  base or the last unit is reached. The exit test on the index is an equality, so the
  loop is partial: \<open>None\<close> is a run that never leaves it.
\<close>

partial_function (option) scale_loop :: "int \<Rightarrow> rat \<Rightarrow> int \<Rightarrow> (rat \<times> int) option" where
  "scale_loop base bytes unit_index =
     (let bytes' = float_div_int bytes base; unit_index' = unit_index + 1
      in if trunc bytes' < base \<or> unit_index' = int (length unit_names) - 1
         then Some (bytes', unit_index')
         else scale_loop base bytes' unit_index')"

declare scale_loop.simps [code]

definition pad3 :: "int \<Rightarrow> string" where
  "pad3 n = [digit_char (n div 100), digit_char (n div 10 mod 10), digit_char (n mod 10)]"

definition format_3f :: "rat \<Rightarrow> string" where
  \<comment> \<open>\<open>"%.3f" % x\<close>: the exact value of the float, rounded to three decimals, ties to even\<close>
  "format_3f x =
     (let m = round_half_even (\<bar>x\<bar> * 1000)
      in (if x < 0 then ''-'' else []) @ show_int (m div 1000) @ ''.'' @ pad3 (m mod 1000))"

function trim_loop :: "string \<Rightarrow> int \<Rightarrow> error + int" where
  \<comment> \<open>\<open>while bytestring[string_index] == "0": string_index -= 1\<close>\<close>
  "trim_loop bytestring string_index =
     (case getitem bytestring string_index of
        Inl e \<Rightarrow> Inl e
      | Inr c \<Rightarrow> if c = CHR ''0'' then trim_loop bytestring (string_index - 1)
                else Inr string_index)"
  by pat_completeness auto
termination
  by (relation "measure (\<lambda>(s, i). nat (i + int (length s) + 1))")
     (auto simp: getitem_def Let_def split: if_splits)

declare trim_loop.simps [simp del]

definition remove_zeroes :: "string \<Rightarrow> error + string" where
  "remove_zeroes bytestring =
     (case trim_loop bytestring (int (length bytestring) - 1) of
        Inl e \<Rightarrow> Inl e
      | Inr string_index \<Rightarrow>
          (let trimmed = slice_to bytestring (string_index + 1)
           in Inr (if endswith trimmed ''.'' then slice_to trimmed (- 1) else trimmed)))"

definition human_readable_bytes :: "int \<Rightarrow> bool \<Rightarrow> bool \<Rightarrow> (error + string) option" where
  \<comment> \<open>\<open>None\<close>: the call does not return; \<open>Some (Inl e)\<close>: it raises \<open>e\<close>\<close>
  "human_readable_bytes bytecount base_1024 remove_trailing_zeroes =
     (let base = (if base_1024 then 1024 else 1000) in
      case float_of_int bytecount of
        Inl e \<Rightarrow> Some (Inl e)
      | Inr start \<Rightarrow>
          (case scale_loop base start (- 1) of
             None \<Rightarrow> None
           | Some (bytes, unit_index) \<Rightarrow>
               Some
                (case (if remove_trailing_zeroes then remove_zeroes (format_3f bytes)
                       else Inr (format_3f bytes)) of
                   Inl e \<Rightarrow> Inl e
                 | Inr bytestring \<Rightarrow>
                     (case getitem unit_names unit_index of
                        Inl e \<Rightarrow> Inl e
                      | Inr unit \<Rightarrow>
                          Inr (bytestring @ unit @ (if base_1024 then ''i'' else []) @ ''B'')))))"

subsection \<open>The two causes of a value error that the specification names\<close>

definition normalised :: "string \<Rightarrow> string" where
  \<comment> \<open>the string whose last character the parser looks at\<close>
  "normalised s = strip_unit_suffixes (lower s)"

definition bare_number_with_point :: "string \<Rightarrow> bool" where
  \<comment> \<open>a bare number (its last character is a digit) with a fractional point\<close>
  "bare_number_with_point s =
     (let t = normalised s in t \<noteq> [] \<and> isdigit (last t) \<and> CHR ''.'' \<in> set t)"

definition unrecognized_unit :: "string \<Rightarrow> bool" where
  \<comment> \<open>the trailing character, after the suffixes are stripped, is no unit letter\<close>
  "unrecognized_unit s =
     (let t = normalised s
      in t \<noteq> [] \<and> \<not> isdigit (last t) \<and> last t \<notin> set ''kmgtpe'')"

definition unparsable_number :: "string \<Rightarrow> bool" where
  \<comment> \<open>the third cause, which the code has as well: the numeric part is rejected by
      \<open>int\<close> or by \<open>float\<close>, or it is a NaN, which \<open>int\<close> rejects\<close>
  "unparsable_number s =
     (let t = normalised s
      in t \<noteq> [] \<and>
         (if isdigit (last t) then CHR ''.'' \<notin> set t \<and> py_int t = Inl ValueError
          else last t \<in> set ''kmgtpe'' \<and>
               (py_float (butlast t) = Inl ValueError \<or> py_float (butlast t) = Inr NaN)))"

section \<open>os.py\<close>

text \<open>
  The file system is what the three calls of the \<open>os\<close> module answer: the names in a
  directory, in no particular order, or the error of a path that cannot be listed, and
  whether a path is a file or a directory.
\<close>

datatype os_error = FileNotFoundError | NotADirectoryError | PermissionError

record filesystem =
  os_listdir :: "string \<Rightarrow> os_error + string list"
  isfile :: "string \<Rightarrow> bool"
  isdir :: "string \<Rightarrow> bool"

definition join :: "string \<Rightarrow> string \<Rightarrow> string" where
  \<comment> \<open>\<open>os.path.join\<close> of two components, on POSIX\<close>
  "join a b =
     (if startswith b ''/'' then b
      else if a = [] \<or> endswith a ''/'' then a @ b
      else a @ ''/'' @ b)"

fun listdir_loop ::
  "filesystem \<Rightarrow> string \<Rightarrow> bool \<Rightarrow> bool \<Rightarrow> bool \<Rightarrow> string list \<Rightarrow> (string \<times> string) list \<Rightarrow>
   (string \<times> string) list" where
  "listdir_loop fs path no_files no_dirs no_dot [] content = content"
| "listdir_loop fs path no_files no_dirs no_dot (child # rest) content =
     (let child_path = join path child in
      if no_files \<and> isfile fs child_path
        then listdir_loop fs path no_files no_dirs no_dot rest content
      else if no_dirs \<and> isdir fs child_path
        then listdir_loop fs path no_files no_dirs no_dot rest content
      else if no_dot \<and> startswith child ''.''
        then listdir_loop fs path no_files no_dirs no_dot rest content
      else listdir_loop fs path no_files no_dirs no_dot rest (content @ [(child, child_path)]))"

definition listdir ::
  "filesystem \<Rightarrow> string \<Rightarrow> bool \<Rightarrow> bool \<Rightarrow> bool \<Rightarrow> os_error + (string \<times> string) list" where
  "listdir fs path no_files no_dirs no_dot =
     (case os_listdir fs path of
        Inl e \<Rightarrow> Inl e
      | Inr children \<Rightarrow> Inr (listdir_loop fs path no_files no_dirs no_dot (sort children) []))"

section \<open>flask/routes/decorators.py\<close>

datatype json =
  JNull | JBool bool | JNumber int | JString string | JArray "json list"
  | JObject "(string \<times> json) list"

text \<open>
  An exception in flight. The \<open>except\<close> clause of the decorator tells an
  \<open>ApiException\<close>, which carries a reason and a status code, from an instance of
  \<open>KeyError\<close>, \<open>TypeError\<close> or \<open>ValueError\<close> (or of a subclass) and from anything
  else; of the latter two it reads only \<open>type(e).__name__\<close>.
\<close>

datatype base_class = BaseKeyError | BaseTypeError | BaseValueError | BaseOther

datatype exn = ApiException string int | Raised base_class string

text \<open>
  The request, as far as the sources read it: \<open>content_type\<close> is \<open>None\<close> where the
  request has no such header, \<open>get_json_silent\<close> is what \<open>get_json(silent=True)\<close>
  returns (\<open>None\<close> where the body does not parse), and \<open>headers\<close> maps a header name
  to its value.
\<close>

record request =
  http_method :: string
  content_type :: "string option"
  is_json :: bool
  get_json_silent :: "json option"
  headers :: "string \<rightharpoonup> string"

record response =
  code :: int
  body :: "(string \<times> json) list"

definition is_dict :: "json option \<Rightarrow> bool" where
  "is_dict j = (case j of Some (JObject _) \<Rightarrow> True | _ \<Rightarrow> False)"

definition make_response :: "(string \<times> json) list \<Rightarrow> int \<Rightarrow> response" where
  "make_response payload status = \<lparr>code = status, body = payload\<rparr>"

definition try_block :: "(unit \<Rightarrow> exn + json) \<Rightarrow> request \<Rightarrow> bool \<times> (exn + json)" where
  \<comment> \<open>the body of the \<open>try\<close>: whether the handler was invoked, and what the body
      returned or raised\<close>
  "try_block func request =
     (case content_type request of
        None \<Rightarrow> (False, Inl (Raised BaseOther ''AttributeError''))
      | Some ct \<Rightarrow>
          (let is_json = (startswith ct ''application/json'' \<and> is_json request
                          \<and> is_dict (get_json_silent request)) in
           if http_method request \<in> set [''POST'', ''PUT'', ''DELETE''] \<and> \<not> is_json
           then (False, Inl (ApiException ''Not in JSON format'' 400))
           else (True, func ())))"

definition except_clause :: "exn \<Rightarrow> exn + response" where
  \<comment> \<open>\<open>except (KeyError, TypeError, ValueError, ApiException) as e\<close>, then the
      \<open>return\<close>; any other exception leaves the decorator\<close>
  "except_clause e =
     (case e of
        ApiException reason status_code \<Rightarrow>
          Inr (make_response
                 (AList.update ''reason'' (JString reason)
                    (AList.update ''status'' (JString ''error'') [(''status'', JString ''ok'')]))
                 status_code)
      | Raised base type_name \<Rightarrow>
          if base = BaseOther then Inl e
          else Inr (make_response
                 (AList.update ''reason'' (JString (''Bad Request: '' @ type_name))
                    (AList.update ''status'' (JString ''error'') [(''status'', JString ''ok'')]))
                 400))"

definition api :: "(unit \<Rightarrow> exn + json) \<Rightarrow> request \<Rightarrow> bool \<times> (exn + response)" where
  \<comment> \<open>the wrapper: whether it invoked the handler, and the response or the exception
      that leaves it\<close>
  "api func request =
     (case try_block func request of
        (called, Inr data) \<Rightarrow>
          (called,
           Inr (make_response (AList.update ''data'' data [(''status'', JString ''ok'')]) 200))
      | (called, Inl e) \<Rightarrow> (called, except_clause e))"

section \<open>flask/initialize.py\<close>

text \<open>
  An \<open>ApiKey\<close> row: the user it belongs to and its two methods. The table maps a key
  id to its row. \<open>base64.b64decode\<close> and \<open>bytes.decode\<close> are taken as they are: each
  returns or raises.
\<close>

datatype decode_error = DecodeTypeError | BinasciiError | UnicodeDecodeError

record api_key =
  user_id :: int
  verify_key :: "string \<Rightarrow> bool"
  has_expired :: bool

record 'u database =
  api_keys :: "string \<rightharpoonup> api_key"
  users :: "int \<rightharpoonup> 'u"

record codecs =
  b64decode :: "string \<Rightarrow> decode_error + string"
  decode_utf8 :: "string \<Rightarrow> decode_error + string"

definition key_id_of :: "string \<Rightarrow> string" where
  \<comment> \<open>\<open>api_key.split(":", 1)[0]\<close>\<close>
  "key_id_of api_key = takeWhile (\<lambda>c. c \<noteq> CHR '':'') api_key"

definition caught_on_decode :: "decode_error \<Rightarrow> bool" where
  \<comment> \<open>\<open>except (TypeError, binascii.Error)\<close>\<close>
  "caught_on_decode e = (e = DecodeTypeError \<or> e = BinasciiError)"

definition load_user_from_request ::
  "codecs \<Rightarrow> request \<Rightarrow> 'u database \<Rightarrow> (decode_error + 'u option) \<times> 'u database" where
  "load_user_from_request lib request db =
     (case headers request ''Authorization'' of
        None \<Rightarrow> (Inr None, db)
      | Some header \<Rightarrow>
          (case b64decode lib (replace_count ''Basic '' [] 1 header) of
             Inl e \<Rightarrow> (if caught_on_decode e then Inr None else Inl e, db)
           | Inr raw \<Rightarrow>
               (case decode_utf8 lib raw of
                  Inl e \<Rightarrow> (if caught_on_decode e then Inr None else Inl e, db)
                | Inr api_key \<Rightarrow>
                    (let key_id = key_id_of api_key in
                     case api_keys db key_id of
                       None \<Rightarrow> (Inr None, db)
                     | Some db_api_key \<Rightarrow>
                         if \<not> verify_key db_api_key api_key then (Inr None, db)
                         else if has_expired db_api_key
                           then (Inr None, db\<lparr>api_keys := (api_keys db)(key_id := None)\<rparr>)
                         else (Inr (users db (user_id db_api_key)), db)))))"

section \<open>flask/wsgi.py\<close>

text \<open>
  One call of the task's function returns, raises an exception (an instance of
  \<open>Exception\<close>, with the text that \<open>str\<close> gives it), or raises something that is
  no \<open>Exception\<close>, such as \<open>SystemExit\<close>. A function is the sequence of what its
  calls do. \<open>time.sleep\<close> is taken as it is: on a length it sleeps (\<open>None\<close>) or
  raises, as it does on a negative length and on one that its clock cannot hold. The
  thread of a task leaves a trace of events.
\<close>

datatype call_result = Returned | RaisedException string | RaisedOther string

datatype event = Called | Logged string | Slept int

datatype thread_state = Running | Died string

definition log_message :: "string \<Rightarrow> string \<Rightarrow> string" where
  "log_message name err = ''Encountered exception in background task '' @ name @ '': '' @ err"

text \<open>
  \<open>run_task\<close>, for a number of turns of its \<open>while True\<close> loop: the state is
  \<open>Running\<close> when the loop is still going after them. The call of \<open>time.sleep\<close>
  stands after the \<open>try\<close>, so what it raises ends the thread.
\<close>

fun run_task ::
  "(int \<Rightarrow> string option) \<Rightarrow> string \<Rightarrow> int \<Rightarrow> (nat \<Rightarrow> call_result) \<Rightarrow> nat \<Rightarrow> nat \<Rightarrow> event list \<Rightarrow>
   thread_state \<times> event list"
  where
  "run_task time_sleep name delay function 0 calls trace = (Running, trace)"
| "run_task time_sleep name delay function (Suc turns) calls trace =
     (case function calls of
        RaisedOther e \<Rightarrow> (Died e, trace @ [Called])
      | result \<Rightarrow>
          (let logged = (case result of
                           RaisedException err \<Rightarrow> [Logged (log_message name err)]
                         | _ \<Rightarrow> [])
           in case time_sleep delay of
                Some e \<Rightarrow> (Died e, trace @ Called # logged)
              | None \<Rightarrow>
                  run_task time_sleep name delay function turns (Suc calls)
                    (trace @ Called # logged @ [Slept delay])))"

section \<open>Notions and examples that the statements use\<close>

definition kept :: "filesystem \<Rightarrow> string \<Rightarrow> bool \<Rightarrow> bool \<Rightarrow> bool \<Rightarrow> string \<Rightarrow> bool" where
  \<comment> \<open>a child that none of the three tests of the loop skips\<close>
  "kept fs path no_files no_dirs no_dot child =
     (\<not> (no_files \<and> isfile fs (join path child)) \<and>
      \<not> (no_dirs \<and> isdir fs (join path child)) \<and>
      \<not> (no_dot \<and> startswith child ''.''))"

definition srv :: filesystem where
  "srv =
     \<lparr>os_listdir = (\<lambda>p. if p = ''/srv'' then Inr [''b.txt'', ''.git'', ''a'']
                         else Inl FileNotFoundError),
      isfile = (\<lambda>p. p = ''/srv/b.txt''),
      isdir = (\<lambda>p. p = ''/srv/a'' \<or> p = ''/srv/.git'')\<rparr>"

definition patch_text :: request where
  "patch_text =
     \<lparr>http_method = ''PATCH'', content_type = Some ''text/plain'', is_json = False,
      get_json_silent = None, headers = Map.empty\<rparr>"

definition post_text :: request where
  "post_text =
     \<lparr>http_method = ''POST'', content_type = Some ''text/plain'', is_json = False,
      get_json_silent = None, headers = Map.empty\<rparr>"

definition get_with_json :: request where
  "get_with_json =
     \<lparr>http_method = ''GET'', content_type = Some ''application/json'', is_json = True,
      get_json_silent = Some (JObject []), headers = Map.empty\<rparr>"

definition get_without_content_type :: request where
  \<comment> \<open>a plain GET: no body and no Content-Type header\<close>
  "get_without_content_type =
     \<lparr>http_method = ''GET'', content_type = None, is_json = False, get_json_silent = None,
      headers = Map.empty\<rparr>"

definition with_key :: request where
  \<comment> \<open>the header carries the base64 form of \<open>1:secret\<close>\<close>
  "with_key =
     \<lparr>http_method = ''GET'', content_type = None, is_json = False, get_json_silent = None,
      headers = [''Authorization'' \<mapsto> ''Basic MTpzZWNyZXQ='']\<rparr>"

definition with_bad_key :: request where
  "with_bad_key =
     \<lparr>http_method = ''GET'', content_type = None, is_json = False, get_json_silent = None,
      headers = [''Authorization'' \<mapsto> ''Basic M'']\<rparr>"

definition with_wrong_secret :: request where
  \<comment> \<open>the header carries the base64 form of \<open>1:wrong\<close>\<close>
  "with_wrong_secret =
     \<lparr>http_method = ''GET'', content_type = None, is_json = False, get_json_silent = None,
      headers = [''Authorization'' \<mapsto> ''Basic MTp3cm9uZw=='']\<rparr>"

definition with_byte_ff :: request where
  \<comment> \<open>the header carries the base64 form of the single byte 0xff, which is no UTF-8\<close>
  "with_byte_ff =
     \<lparr>http_method = ''GET'', content_type = None, is_json = False, get_json_silent = None,
      headers = [''Authorization'' \<mapsto> ''Basic /w=='']\<rparr>"

definition one_codec :: codecs where
  \<comment> \<open>what the two decoders of Python do on the four header values above; no other
      value is used\<close>
  "one_codec =
     \<lparr>b64decode =
        (\<lambda>s. if s = ''MTpzZWNyZXQ='' then Inr ''1:secret''
             else if s = ''MTp3cm9uZw=='' then Inr ''1:wrong''
             else if s = ''/w=='' then Inr [CHR 0xFF]
             else Inl BinasciiError),
      decode_utf8 = (\<lambda>raw. if raw = [CHR 0xFF] then Inl UnicodeDecodeError else Inr raw)\<rparr>"

definition expired_db :: "string database" where
  "expired_db =
     \<lparr>api_keys = [''1'' \<mapsto> \<lparr>user_id = 7, verify_key = (\<lambda>k. k = ''1:secret''),
                               has_expired = True\<rparr>],
      users = [7 \<mapsto> ''ada'']\<rparr>"

definition raised_text :: "call_result \<Rightarrow> string" where
  "raised_text r = (case r of RaisedException err \<Rightarrow> err | _ \<Rightarrow> [])"

definition sleep_60 :: "int \<Rightarrow> string option" where
  \<comment> \<open>\<open>time.sleep\<close> on the two lengths of the examples: it sleeps for 60 seconds and
      raises ValueError on -1; no other length is used\<close>
  "sleep_60 d = (if d = 60 then None else Some ''ValueError'')"

definition failing_turn :: "string \<Rightarrow> int \<Rightarrow> (nat \<Rightarrow> call_result) \<Rightarrow> nat \<Rightarrow> event list" where
  \<comment> \<open>the events of the turn in which call \<open>k\<close> raises an exception\<close>
  "failing_turn name delay function k =
     [Called, Logged (log_message name (raised_text (function k))), Slept delay]"

section \<open>Evaluation on concrete inputs\<close>

lemma floor_numeral_divide [simp]:
  "\<lfloor>(numeral a :: rat) / numeral b\<rfloor> = numeral a div numeral b"
  using floor_divide_of_int_eq [of "numeral a" "numeral b", where ?'a = rat] by simp

lemma ceiling_numeral_divide [simp]:
  "\<lceil>(numeral a :: rat) / numeral b\<rceil> = - (- numeral a div numeral b)"
  using ceiling_divide_eq_div [of "numeral a" "numeral b", where ?'a = rat] by simp

lemmas float_eval =
  to_float_def round_double_def binade_def pow2_def round_half_even_def bit_length.simps
  float_of_int_def float_div_int_def float_mul_int_def int_of_float_def trunc_def Let_def

lemmas string_eval =
  lower_def lower_char_def strip_def isspace_def isdigit_def drop_underscores_def
  split_sign_def digits_value_def digit_value_def digit_char_def startswith_def endswith_def

lemmas parse_eval =
  byte_string_to_byte_count_def strip_unit_suffixes_def units_def replace_def py_float_def
  py_int_def parse_decimal_def parse_exponent_def pow10_def

section \<open>The byte parser\<close>

lemma parse_1K: "byte_string_to_byte_count ''1K'' = Inr 1000"
  by (simp add: parse_eval string_eval float_eval)

lemma parse_1KB: "byte_string_to_byte_count ''1KB'' = Inr 1000"
  by (simp add: parse_eval string_eval float_eval)

lemma parse_1Kb_s: "byte_string_to_byte_count ''1Kb/s'' = Inr 1000"
  by (simp add: parse_eval string_eval float_eval)

lemma parse_500K: "byte_string_to_byte_count ''500K'' = Inr 500000"
  by (simp add: parse_eval string_eval float_eval)

lemma parse_2_5M: "byte_string_to_byte_count ''2.5M'' = Inr 2500000"
  by (simp add: parse_eval string_eval float_eval)

lemma parse_10GB: "byte_string_to_byte_count ''10GB'' = Inr 10000000000"
  by (simp add: parse_eval string_eval float_eval)

lemma parse_30kb_s: "byte_string_to_byte_count ''30kb/s'' = Inr 30000"
  by (simp add: parse_eval string_eval float_eval)

lemma parse_12_3: "byte_string_to_byte_count ''12.3'' = Inl ValueError"
  by (simp add: parse_eval string_eval float_eval)

lemma parse_abc: "byte_string_to_byte_count ''abc'' = Inl ValueError"
  by (simp add: parse_eval string_eval float_eval)

lemma parse_123: "byte_string_to_byte_count ''123'' = Inr 123"
  by (simp add: parse_eval string_eval float_eval)

lemma parse_k: "byte_string_to_byte_count ''k'' = Inl ValueError"
  by (simp add: parse_eval string_eval float_eval)

lemma parse_empty: "byte_string_to_byte_count [] = Inl IndexError"
  by (simp add: parse_eval string_eval)

lemma parse_infk: "byte_string_to_byte_count ''infk'' = Inl OverflowError"
  by (simp add: parse_eval string_eval float_eval)

lemma parse_depends_on_lower:
  "lower s = lower t \<Longrightarrow> byte_string_to_byte_count s = byte_string_to_byte_count t"
  by (simp add: byte_string_to_byte_count_def)

text \<open>
  C4. The parser is exact on the examples of the specification: 1000 for "1K", "1KB" and
  "1Kb/s", 500000 for "500K", 2500000 for "2.5M", 10000000000 for "10GB", 30000 for
  "30kb/s". It ignores case: two strings that differ only in the case of their letters
  have the same outcome.
\<close>

theorem byte_string_to_byte_count_examples:
  "byte_string_to_byte_count ''1K'' = Inr 1000 \<and>
   byte_string_to_byte_count ''1KB'' = Inr 1000 \<and>
   byte_string_to_byte_count ''1Kb/s'' = Inr 1000 \<and>
   byte_string_to_byte_count ''500K'' = Inr 500000 \<and>
   byte_string_to_byte_count ''2.5M'' = Inr 2500000 \<and>
   byte_string_to_byte_count ''10GB'' = Inr 10000000000 \<and>
   byte_string_to_byte_count ''30kb/s'' = Inr 30000 \<and>
   (\<forall>s t. lower s = lower t \<longrightarrow> byte_string_to_byte_count s = byte_string_to_byte_count t)"
  using parse_1K parse_1KB parse_1Kb_s parse_500K parse_2_5M parse_10GB parse_30kb_s
    parse_depends_on_lower
  by blast

theorem byte_string_to_byte_count_examples_witness:
  "lower ''30KB/S'' = lower ''30kb/s'' \<and> byte_string_to_byte_count ''30KB/S'' = Inr 30000"
proof -
  have same: "lower ''30KB/S'' = lower ''30kb/s''"
    by (simp add: string_eval)
  from byte_string_to_byte_count_examples
  have "byte_string_to_byte_count ''30kb/s'' = Inr 30000"
    and "lower ''30KB/S'' = lower ''30kb/s'' \<longrightarrow>
         byte_string_to_byte_count ''30KB/S'' = byte_string_to_byte_count ''30kb/s''"
    by blast+
  with same show ?thesis by simp
qed

subsection \<open>Which inputs raise\<close>

lemma replace_nonempty_Nil_iff:
  "new \<noteq> [] \<Longrightarrow> replace_nonempty old new s = [] \<longleftrightarrow> s = []"
  by (induction old new s rule: replace_nonempty.induct)
     (subst replace_nonempty.simps, auto)

lemma replace_Nil_iff: "old \<noteq> [] \<Longrightarrow> new \<noteq> [] \<Longrightarrow> replace old new s = [] \<longleftrightarrow> s = []"
  by (simp add: replace_def replace_nonempty_Nil_iff)

lemma strip_unit_suffixes_Nil_iff: "strip_unit_suffixes s = [] \<longleftrightarrow> s = []"
  by (simp add: strip_unit_suffixes_def units_def replace_Nil_iff)

lemma lower_Nil_iff: "lower s = [] \<longleftrightarrow> s = []"
  by (simp add: lower_def)

lemma py_int_error: "py_int s = Inl e \<Longrightarrow> e = ValueError"
  by (auto simp: py_int_def Let_def split: if_splits prod.splits)

lemma py_float_error: "py_float s = Inl e \<Longrightarrow> e = ValueError"
  by (auto simp: py_float_def Let_def split: if_splits prod.splits option.splits)

lemma to_float_not_NaN: "to_float x \<noteq> NaN"
  by (simp add: to_float_def Let_def)

lemma float_mul_int_NaN_iff: "float_mul_int x m = NaN \<longleftrightarrow> x = NaN"
  by (cases x) (simp_all add: float_mul_int_def to_float_not_NaN)

lemma int_of_float_IndexError: "int_of_float x \<noteq> Inl IndexError"
  by (cases x) (simp_all add: int_of_float_def)

lemma int_of_float_ValueError_iff: "int_of_float x = Inl ValueError \<longleftrightarrow> x = NaN"
  by (cases x) (simp_all add: int_of_float_def)

lemma map_of_units_None_iff: "map_of units c = None \<longleftrightarrow> c \<notin> set ''kmgtpe''"
  by (simp add: units_def)

lemma value_error_iff:
  "byte_string_to_byte_count s = Inl ValueError \<longleftrightarrow>
     bare_number_with_point s \<or> unrecognized_unit s \<or> unparsable_number s"
proof (cases "normalised s = []")
  case True
  then show ?thesis
    by (simp add: byte_string_to_byte_count_def bare_number_with_point_def
          unrecognized_unit_def unparsable_number_def normalised_def)
next
  case False
  show ?thesis
  proof (cases "isdigit (last (normalised s))")
    case True
    with False show ?thesis
      by (auto simp: byte_string_to_byte_count_def bare_number_with_point_def
            unrecognized_unit_def unparsable_number_def normalised_def Let_def
          dest: py_int_error)
  next
    case digit: False
    show ?thesis
    proof (cases "map_of units (last (normalised s))")
      case None
      with False digit show ?thesis
        using map_of_units_None_iff [of "last (normalised s)"]
        by (simp add: byte_string_to_byte_count_def bare_number_with_point_def
            unrecognized_unit_def unparsable_number_def normalised_def Let_def)
    next
      case (Some m)
      then have "last (normalised s) \<in> set ''kmgtpe''"
        using map_of_units_None_iff [of "last (normalised s)"] by auto
      with False digit Some show ?thesis
        by (auto simp: byte_string_to_byte_count_def bare_number_with_point_def
            unrecognized_unit_def unparsable_number_def normalised_def Let_def
            int_of_float_ValueError_iff float_mul_int_NaN_iff
          dest: py_float_error split: sum.splits)
    qed
  qed
qed

lemmas cause_eval =
  bare_number_with_point_def unrecognized_unit_def unparsable_number_def normalised_def

text \<open>
  C5, as stated, fails: the string "k" is not a bare number and its trailing character
  is the unit letter k, yet the parser raises a value error, since \<open>float\<close> rejects the
  empty numeric part.
\<close>

theorem value_error_exactly_when_counterexample:
  "byte_string_to_byte_count ''k'' = Inl ValueError \<and>
   \<not> bare_number_with_point ''k'' \<and> \<not> unrecognized_unit ''k''"
  by (simp add: parse_k cause_eval strip_unit_suffixes_def units_def replace_def string_eval)

text \<open>
  C5, amended. The parser raises a value error exactly when the input is a bare number
  with a fractional point, or its trailing character after suffix stripping is not a unit
  letter, or its numeric part is not a number that \<open>int\<close> and \<open>float\<close> accept. It
  raises on "12.3" and on "abc" and returns 123 for "123".
\<close>

theorem value_error_causes:
  "(byte_string_to_byte_count s = Inl ValueError \<longleftrightarrow>
      bare_number_with_point s \<or> unrecognized_unit s \<or> unparsable_number s) \<and>
   byte_string_to_byte_count ''12.3'' = Inl ValueError \<and>
   byte_string_to_byte_count ''abc'' = Inl ValueError \<and>
   byte_string_to_byte_count ''123'' = Inr 123"
  using value_error_iff parse_12_3 parse_abc parse_123 by blast

theorem value_error_causes_witness:
  "bare_number_with_point ''7.5'' \<and> byte_string_to_byte_count ''7.5'' = Inl ValueError"
proof -
  have cause: "bare_number_with_point ''7.5''"
    by (simp add: cause_eval strip_unit_suffixes_def units_def replace_def string_eval)
  with value_error_causes [of "''7.5''"] show ?thesis by blast
qed

text \<open>
  C10. The empty string raises IndexError, not the ValueError of the invalid formats,
  and it is the only input that raises IndexError.
\<close>

theorem empty_string_index_error:
  "byte_string_to_byte_count [] = Inl IndexError \<and>
   byte_string_to_byte_count [] \<noteq> Inl ValueError \<and>
   (\<forall>s. byte_string_to_byte_count s = Inl IndexError \<longleftrightarrow> s = [])"
proof -
  have "byte_string_to_byte_count s = Inl IndexError \<longleftrightarrow> s = []" for s
    by (auto simp: byte_string_to_byte_count_def Let_def strip_unit_suffixes_Nil_iff
          lower_Nil_iff int_of_float_IndexError
        dest: py_int_error py_float_error split: if_splits option.splits sum.splits)
  moreover have "byte_string_to_byte_count [] \<noteq> Inl ValueError"
    by (simp add: parse_empty)
  ultimately show ?thesis
    using parse_empty by blast
qed

theorem empty_string_index_error_witness:
  "byte_string_to_byte_count ''1K'' \<noteq> Inl IndexError"
  using empty_string_index_error by simp

section \<open>The byte formatter\<close>

lemma scale_loop_returns:
  "- 1 \<le> i \<Longrightarrow> i \<le> 6 \<Longrightarrow>
   \<exists>b' i'. scale_loop base b i = Some (b', i') \<and> 0 \<le> i' \<and> i' \<le> 7"
proof (induction "nat (6 - i)" arbitrary: i b)
  case 0
  then have "i = 6" by simp
  then show ?case
    by (subst scale_loop.simps) (simp add: Let_def unit_names_def)
next
  case (Suc k)
  then have step: "k = nat (6 - (i + 1))" "- 1 \<le> i + 1" "i + 1 \<le> 6" by simp_all
  from Suc.hyps(1) [OF step, of "float_div_int b base"]
  obtain b' i' where "scale_loop base (float_div_int b base) (i + 1) = Some (b', i')"
    "0 \<le> i'" "i' \<le> 7" by blast
  with Suc.prems show ?case
    by (subst scale_loop.simps) (auto simp: Let_def unit_names_def)
qed

lemma getitem_unit_names:
  assumes "0 \<le> i" "i \<le> 7"
  shows "\<exists>u. getitem unit_names i = Inr u \<and> u \<in> set unit_names"
proof -
  from assms have len: "nat i < length unit_names" "i < int (length unit_names)"
    by (simp_all add: unit_names_def)
  then have "unit_names ! nat i \<in> set unit_names"
    by (simp only: nth_mem)
  with assms(1) len(2) show ?thesis
    by (simp add: getitem_def Let_def)
qed

lemma trim_loop_stops:
  "0 \<le> i \<Longrightarrow> nat i < length s \<Longrightarrow> j \<le> nat i \<Longrightarrow> s ! j \<noteq> CHR ''0'' \<Longrightarrow>
   \<exists>k. trim_loop s i = Inr k"
proof (induction "nat i" arbitrary: i)
  case 0
  then have "i = 0" "j = 0" by simp_all
  with 0 show ?case
    by (subst trim_loop.simps) (simp add: getitem_def Let_def)
next
  case (Suc n)
  show ?case
  proof (cases "s ! nat i = CHR ''0''")
    case True
    with Suc.prems have "j \<noteq> nat i" by auto
    with Suc have "n = nat (i - 1)" "0 \<le> i - 1" "nat (i - 1) < length s" "j \<le> nat (i - 1)"
      by simp_all
    from Suc.hyps(1) [OF this Suc.prems(4)] obtain k where "trim_loop s (i - 1) = Inr k" ..
    with Suc.prems True show ?thesis
      by (subst trim_loop.simps) (simp add: getitem_def Let_def)
  next
    case False
    with Suc.prems show ?thesis
      by (subst trim_loop.simps) (simp add: getitem_def Let_def)
  qed
qed

lemma format_3f_point:
  "\<exists>pre post. format_3f x = pre @ CHR ''.'' # post \<and> length post = 3"
proof -
  define m where "m = round_half_even (\<bar>x\<bar> * 1000)"
  have "format_3f x =
      ((if x < 0 then ''-'' else []) @ show_int (m div 1000)) @ CHR ''.'' # pad3 (m mod 1000)"
    by (simp add: format_3f_def Let_def m_def)
  moreover have "length (pad3 (m mod 1000)) = 3"
    by (simp add: pad3_def)
  ultimately show ?thesis by blast
qed

lemma remove_zeroes_format_3f: "\<exists>r. remove_zeroes (format_3f x) = Inr r"
proof -
  obtain pre post where s: "format_3f x = pre @ CHR ''.'' # post" "length post = 3"
    using format_3f_point by blast
  have "\<exists>k. trim_loop (format_3f x) (int (length (format_3f x)) - 1) = Inr k"
    by (rule trim_loop_stops [where j = "length pre"]) (simp_all add: s)
  then show ?thesis
    by (auto simp: remove_zeroes_def Let_def)
qed

lemma float_of_int_error: "float_of_int n = Inl e \<Longrightarrow> e = OverflowError"
  by (auto simp: float_of_int_def split: pyfloat.splits)

lemma human_readable_bytes_shape:
  "human_readable_bytes n b z = Some (Inl OverflowError) \<or>
   (\<exists>num unit. unit \<in> set unit_names \<and>
      human_readable_bytes n b z = Some (Inr (num @ unit @ (if b then ''i'' else []) @ ''B'')))"
proof (cases "float_of_int n")
  case (Inl e)
  then show ?thesis
    using float_of_int_error [OF Inl] by (simp add: human_readable_bytes_def)
next
  case (Inr start)
  obtain bytes i where loop: "scale_loop (if b then 1024 else 1000) start (- 1) = Some (bytes, i)"
    "0 \<le> i" "i \<le> 7"
    using scale_loop_returns [of "- 1" "if b then 1024 else 1000" start] by auto
  obtain u where u: "getitem unit_names i = Inr u" "u \<in> set unit_names"
    using getitem_unit_names [OF loop(2,3)] by blast
  obtain r where r: "remove_zeroes (format_3f bytes) = Inr r"
    using remove_zeroes_format_3f by blast
  show ?thesis
  proof (cases z)
    case True
    with Inr loop(1) u r show ?thesis
      by (auto simp: human_readable_bytes_def)
  next
    case False
    with Inr loop(1) u show ?thesis
      by (auto simp: human_readable_bytes_def)
  qed
qed

lemma float_of_int_1000000: "float_of_int 1000000 = Inr 1000000"
  by (simp add: float_eval)

lemma float_of_int_1048576: "float_of_int 1048576 = Inr 1048576"
  by (simp add: float_eval)

lemma scale_loop_1000000: "scale_loop 1000 1000000 (- 1) = Some (1, 1)"
  by (simp add: scale_loop.simps [of _ 1000000] scale_loop.simps [of _ 1000] float_eval
        unit_names_def)

lemma scale_loop_1048576: "scale_loop 1024 1048576 (- 1) = Some (1, 1)"
  by (simp add: scale_loop.simps [of _ 1048576] scale_loop.simps [of _ 1024] float_eval
        unit_names_def)

lemma format_3f_1: "format_3f 1 = ''1.000''"
  by (simp add: format_3f_def round_half_even_def pad3_def digit_char_def show_int.simps)

lemma remove_zeroes_1: "remove_zeroes ''1.000'' = Inr ''1''"
  by (simp add: remove_zeroes_def trim_loop.simps getitem_def slice_to_def endswith_def)

lemma format_1000000: "human_readable_bytes 1000000 False True = Some (Inr ''1MB'')"
  by (simp add: human_readable_bytes_def float_of_int_1000000 scale_loop_1000000 format_3f_1
        remove_zeroes_1 getitem_def unit_names_def)

lemma format_1048576: "human_readable_bytes 1048576 True True = Some (Inr ''1MiB'')"
  by (simp add: human_readable_bytes_def float_of_int_1048576 scale_loop_1048576 format_3f_1
        remove_zeroes_1 getitem_def unit_names_def)

text \<open>
  C1, as stated, fails: for 1000000 in base 1000 the formatter returns "1MB", not "1M".
  The letter B is appended in both bases.
\<close>

theorem human_readable_bytes_1M_counterexample:
  "human_readable_bytes 1000000 False True \<noteq> Some (Inr ''1M'')"
  by (simp add: format_1000000)

text \<open>
  C1, amended. With trailing zeros trimmed, the formatter returns "1MB" for 1000000 in
  base 1000 and "1MiB" for 1048576 in base 1024. Every call returns, or raises
  OverflowError where the byte count is beyond the floats; what it returns is a number,
  a unit letter, the letter i exactly when base 1024 is set, and the letter B.
\<close>

theorem human_readable_bytes_examples:
  "human_readable_bytes 1000000 False True = Some (Inr ''1MB'') \<and>
   human_readable_bytes 1048576 True True = Some (Inr ''1MiB'') \<and>
   (\<forall>n b z. human_readable_bytes n b z = Some (Inl OverflowError) \<or>
      (\<exists>num unit. unit \<in> set unit_names \<and>
         human_readable_bytes n b z =
           Some (Inr (num @ unit @ (if b then ''i'' else []) @ ''B''))))"
  using format_1000000 format_1048576 human_readable_bytes_shape by blast

section \<open>The directory lister\<close>

lemma listdir_loop_eq:
  "listdir_loop fs path nf nd ndot children content =
     content @ map (\<lambda>child. (child, join path child)) (filter (kept fs path nf nd ndot) children)"
  by (induction children arbitrary: content) (auto simp: kept_def Let_def)

lemma sorted_filter_sort: "sorted (filter P (sort (xs :: string list)))"
  using sorted_filter [of "\<lambda>x. x" "sort xs" P] by simp

text \<open>
  C9. A path that cannot be listed raises the error of the operating system. For every
  other path, listdir returns pairs of a name and a full path, sorted by name: each name
  is a child of the path and each full path is the path joined with the name; with
  \<open>no_dot\<close> no name starts with a dot, with \<open>no_files\<close> no entry is a file, with
  \<open>no_dirs\<close> no entry is a directory; and every child that these tests do not exclude
  is returned.
\<close>

theorem listdir_sorted_filtered:
  "(\<forall>e. os_listdir fs path = Inl e \<longrightarrow> listdir fs path no_files no_dirs no_dot = Inl e) \<and>
   (\<forall>children. os_listdir fs path = Inr children \<longrightarrow>
      (\<exists>content. listdir fs path no_files no_dirs no_dot = Inr content \<and>
         sorted (map fst content) \<and>
         (\<forall>(name, full) \<in> set content.
            name \<in> set children \<and> full = join path name \<and>
            (no_dot \<longrightarrow> \<not> startswith name ''.'') \<and>
            (no_files \<longrightarrow> \<not> isfile fs full) \<and>
            (no_dirs \<longrightarrow> \<not> isdir fs full)) \<and>
         (\<forall>child \<in> set children.
            \<not> (no_dot \<and> startswith child ''.'') \<and>
            \<not> (no_files \<and> isfile fs (join path child)) \<and>
            \<not> (no_dirs \<and> isdir fs (join path child)) \<longrightarrow>
            (child, join path child) \<in> set content)))"
proof (intro conjI allI impI)
  fix e assume "os_listdir fs path = Inl e"
  then show "listdir fs path no_files no_dirs no_dot = Inl e"
    by (simp add: listdir_def)
next
  fix children assume ls: "os_listdir fs path = Inr children"
  define content where
    "content = map (\<lambda>child. (child, join path child))
       (filter (kept fs path no_files no_dirs no_dot) (sort children))"
  have res: "listdir fs path no_files no_dirs no_dot = Inr content"
    by (simp add: listdir_def ls listdir_loop_eq content_def)
  have names: "map fst content = filter (kept fs path no_files no_dirs no_dot) (sort children)"
    by (simp add: content_def comp_def)
  have "sorted (map fst content)"
    unfolding names by (rule sorted_filter_sort)
  moreover have "\<forall>(name, full) \<in> set content.
            name \<in> set children \<and> full = join path name \<and>
            (no_dot \<longrightarrow> \<not> startswith name ''.'') \<and>
            (no_files \<longrightarrow> \<not> isfile fs full) \<and>
            (no_dirs \<longrightarrow> \<not> isdir fs full)"
    by (auto simp: content_def kept_def)
  moreover have "\<forall>child \<in> set children.
            \<not> (no_dot \<and> startswith child ''.'') \<and>
            \<not> (no_files \<and> isfile fs (join path child)) \<and>
            \<not> (no_dirs \<and> isdir fs (join path child)) \<longrightarrow>
            (child, join path child) \<in> set content"
    by (auto simp: content_def kept_def)
  ultimately show "\<exists>content. listdir fs path no_files no_dirs no_dot = Inr content \<and>
         sorted (map fst content) \<and>
         (\<forall>(name, full) \<in> set content.
            name \<in> set children \<and> full = join path name \<and>
            (no_dot \<longrightarrow> \<not> startswith name ''.'') \<and>
            (no_files \<longrightarrow> \<not> isfile fs full) \<and>
            (no_dirs \<longrightarrow> \<not> isdir fs full)) \<and>
         (\<forall>child \<in> set children.
            \<not> (no_dot \<and> startswith child ''.'') \<and>
            \<not> (no_files \<and> isfile fs (join path child)) \<and>
            \<not> (no_dirs \<and> isdir fs (join path child)) \<longrightarrow>
            (child, join path child) \<in> set content)"
    using res by blast
qed

theorem listdir_sorted_filtered_witness:
  "os_listdir srv ''/srv'' = Inr [''b.txt'', ''.git'', ''a''] \<and>
   listdir srv ''/srv'' False False True =
     Inr [(''a'', ''/srv/a''), (''b.txt'', ''/srv/b.txt'')] \<and>
   (\<exists>content. listdir srv ''/srv'' False False True = Inr content \<and>
      sorted (map fst content) \<and> (''a'', ''/srv/a'') \<in> set content)"
proof -
  have ls: "os_listdir srv ''/srv'' = Inr [''b.txt'', ''.git'', ''a'']"
    by (simp add: srv_def)
  have val: "listdir srv ''/srv'' False False True =
      Inr [(''a'', ''/srv/a''), (''b.txt'', ''/srv/b.txt'')]"
    by (simp add: listdir_def srv_def join_def startswith_def endswith_def)
  from listdir_sorted_filtered [of srv "''/srv''" False False True] ls
  obtain content where c: "listdir srv ''/srv'' False False True = Inr content"
    "sorted (map fst content)"
    "\<forall>child \<in> set [''b.txt'', ''.git'', ''a''].
       \<not> (True \<and> startswith child ''.'') \<and>
       \<not> (False \<and> isfile srv (join ''/srv'' child)) \<and>
       \<not> (False \<and> isdir srv (join ''/srv'' child)) \<longrightarrow>
       (child, join ''/srv'' child) \<in> set content"
    by blast
  from c(3) have "(''a'', ''/srv/a'') \<in> set content"
    by (simp add: join_def startswith_def endswith_def)
  with ls val c show ?thesis by blast
qed

section \<open>The api decorator\<close>

lemmas api_eval =
  api_def try_block_def except_clause_def make_response_def is_dict_def startswith_def

lemma api_called_iff:
  "fst (api func request) \<longleftrightarrow>
     (\<exists>ct. content_type request = Some ct \<and>
        (http_method request \<in> {''POST'', ''PUT'', ''DELETE''} \<longrightarrow>
           startswith ct ''application/json'' \<and> is_json request \<and>
           is_dict (get_json_silent request)))"
  by (auto simp: api_def try_block_def Let_def split: option.splits sum.splits)

lemma api_called:
  "fst (api func request) \<Longrightarrow>
   api func request =
     (True,
      case func () of
        Inr data \<Rightarrow> Inr \<lparr>code = 200, body = [(''status'', JString ''ok''), (''data'', data)]\<rparr>
      | Inl e \<Rightarrow> except_clause e)"
  by (auto simp: api_def try_block_def Let_def make_response_def
      split: option.splits sum.splits if_splits)

lemma api_without_content_type:
  "content_type request = None \<Longrightarrow>
   api func request = (False, Inl (Raised BaseOther ''AttributeError''))"
  by (simp add: api_eval)

text \<open>
  C3, as stated, fails: the test of the decorator names POST, PUT and DELETE. A PATCH
  request is not a GET and its body here is no JSON object, yet the handler is invoked
  and the answer is 200.
\<close>

theorem api_non_get_counterexample:
  "http_method patch_text \<noteq> ''GET'' \<and> \<not> is_dict (get_json_silent patch_text) \<and>
   api (\<lambda>_. Inr JNull) patch_text =
     (True, Inr \<lparr>code = 200, body = [(''status'', JString ''ok''), (''data'', JNull)]\<rparr>)"
  by (simp add: patch_text_def api_eval)

text \<open>
  C3, amended. For every request whose method is POST, PUT or DELETE, which has a
  content type, and whose body is not a JSON object, the decorator does not invoke the
  handler and returns status 400 with status "error" and the reason
  "Not in JSON format".
\<close>

theorem api_requires_json:
  "http_method request \<in> {''POST'', ''PUT'', ''DELETE''} \<Longrightarrow>
   content_type request = Some ct \<Longrightarrow>
   \<not> is_dict (get_json_silent request) \<Longrightarrow>
   api func request =
     (False,
      Inr \<lparr>code = 400,
           body = [(''status'', JString ''error''), (''reason'', JString ''Not in JSON format'')]\<rparr>)"
  by (auto simp: api_eval Let_def)

theorem api_requires_json_witness:
  "http_method post_text \<in> {''POST'', ''PUT'', ''DELETE''} \<and>
   content_type post_text = Some ''text/plain'' \<and>
   \<not> is_dict (get_json_silent post_text) \<and>
   api (\<lambda>_. Inr JNull) post_text =
     (False,
      Inr \<lparr>code = 400,
           body = [(''status'', JString ''error''), (''reason'', JString ''Not in JSON format'')]\<rparr>)"
proof -
  have h: "http_method post_text \<in> {''POST'', ''PUT'', ''DELETE''}"
    "content_type post_text = Some ''text/plain''" "\<not> is_dict (get_json_silent post_text)"
    by (simp_all add: post_text_def is_dict_def)
  from api_requires_json [OF h] h show ?thesis by blast
qed

text \<open>
  C7. When the handler is invoked and raises: an ApiException gives status "error" with
  its own status code and reason; an instance of KeyError, TypeError or ValueError gives
  status "error" with code 400 and a reason that names the type of the exception; any
  other exception leaves the decorator as it is.
\<close>

theorem api_converts_whitelist:
  "fst (api func request) \<Longrightarrow>
   (\<forall>reason status. func () = Inl (ApiException reason status) \<longrightarrow>
      snd (api func request) =
        Inr \<lparr>code = status,
             body = [(''status'', JString ''error''), (''reason'', JString reason)]\<rparr>) \<and>
   (\<forall>base name. func () = Inl (Raised base name) \<and>
        base \<in> {BaseKeyError, BaseTypeError, BaseValueError} \<longrightarrow>
      snd (api func request) =
        Inr \<lparr>code = 400,
             body = [(''status'', JString ''error''),
                     (''reason'', JString (''Bad Request: '' @ name))]\<rparr>) \<and>
   (\<forall>name. func () = Inl (Raised BaseOther name) \<longrightarrow>
      snd (api func request) = Inl (Raised BaseOther name))"
  by (auto simp: api_called except_clause_def make_response_def)

theorem api_converts_whitelist_witness:
  "fst (api (\<lambda>_. Inl (Raised BaseValueError ''ValueError'')) get_with_json) \<and>
   snd (api (\<lambda>_. Inl (Raised BaseValueError ''ValueError'')) get_with_json) =
     Inr \<lparr>code = 400,
          body = [(''status'', JString ''error''),
                  (''reason'', JString ''Bad Request: ValueError'')]\<rparr> \<and>
   snd (api (\<lambda>_. Inl (ApiException ''Gone'' 410)) get_with_json) =
     Inr \<lparr>code = 410, body = [(''status'', JString ''error''), (''reason'', JString ''Gone'')]\<rparr> \<and>
   snd (api (\<lambda>_. Inl (Raised BaseOther ''RuntimeError'')) get_with_json) =
     Inl (Raised BaseOther ''RuntimeError'')"
proof -
  have called: "fst (api f get_with_json)" for f
    by (simp add: api_called_iff get_with_json_def)
  show ?thesis
    using api_converts_whitelist [OF called [of "\<lambda>_. Inl (Raised BaseValueError ''ValueError'')"]]
      api_converts_whitelist [OF called [of "\<lambda>_. Inl (ApiException ''Gone'' 410)"]]
      api_converts_whitelist [OF called [of "\<lambda>_. Inl (Raised BaseOther ''RuntimeError'')"]]
      called
    by simp
qed

text \<open>
  When the handler is invoked and returns, the decorator answers 200 with status "ok"
  and the returned value under "data". The handler of a GET request that has a content
  type is always invoked.
\<close>

lemma api_success_envelope:
  "(fst (api func request) \<and> func () = Inr data \<longrightarrow>
      snd (api func request) =
        Inr \<lparr>code = 200, body = [(''status'', JString ''ok''), (''data'', data)]\<rparr>) \<and>
   (http_method request = ''GET'' \<and> content_type request = Some ct \<and> func () = Inr data \<longrightarrow>
      api func request =
        (True, Inr \<lparr>code = 200, body = [(''status'', JString ''ok''), (''data'', data)]\<rparr>))"
proof -
  have "fst (api func request)"
    if "http_method request = ''GET''" "content_type request = Some ct"
    using that by (simp add: api_called_iff)
  then show ?thesis
    by (auto simp: api_called)
qed

lemma api_success_envelope_example:
  "fst (api (\<lambda>_. Inr (JNumber 7)) get_with_json) \<and>
   api (\<lambda>_. Inr (JNumber 7)) get_with_json =
     (True, Inr \<lparr>code = 200, body = [(''status'', JString ''ok''), (''data'', JNumber 7)]\<rparr>)"
proof -
  have "http_method get_with_json = ''GET''"
    "content_type get_with_json = Some ''application/json''"
    by (simp_all add: get_with_json_def)
  with api_success_envelope [of "\<lambda>_. Inr (JNumber 7)" get_with_json "JNumber 7"
      "''application/json''"]
  show ?thesis by simp
qed

text \<open>
  C8 holds of every request that reaches the handler, but not of every GET whose handler
  would return: on a GET with no Content-Type header, \<open>request.content_type\<close> is
  \<open>None\<close>, its \<open>startswith\<close> raises AttributeError inside the \<open>try\<close>, the
  \<open>except\<close> clause does not catch it, and the handler is never invoked. The decorator
  raises where the claim has the answer 200.
\<close>

theorem api_get_without_content_type_raises:
  "http_method get_without_content_type = ''GET'' \<and>
   api (\<lambda>_. Inr (JNumber 7)) get_without_content_type =
     (False, Inl (Raised BaseOther ''AttributeError''))"
  by (simp add: get_without_content_type_def api_eval)

section \<open>The request loader\<close>

text \<open>
  C2, as stated, fails: the loader asks whether the key has expired only once the key
  has verified. The row of an expired key stays in the table when the request carries a
  wrong secret for it.
\<close>

theorem load_user_expired_unverified_counterexample:
  "api_keys expired_db (key_id_of ''1:wrong'') =
     Some \<lparr>user_id = 7, verify_key = (\<lambda>k. k = ''1:secret''), has_expired = True\<rparr> \<and>
   load_user_from_request one_codec with_wrong_secret expired_db = (Inr None, expired_db)"
  by (simp add: load_user_from_request_def one_codec_def with_wrong_secret_def expired_db_def
        key_id_of_def)

text \<open>
  C2, amended. The loader returns None, and raises nothing, when the request has no
  Authorization header, when \<open>b64decode\<close> rejects its value with the error of
  binascii (or a type error), and, where the value decodes to a string, when the table
  has no key of the decoded id, when the key does not verify, and when the key verifies
  and has expired; in the last case the row of the key is gone from the table
  afterwards, and in the others the table is as before.
\<close>

theorem load_user_from_request_anonymous:
  "(headers request ''Authorization'' = None \<longrightarrow>
      load_user_from_request lib request db = (Inr None, db)) \<and>
   (\<forall>header e. headers request ''Authorization'' = Some header \<and>
      b64decode lib (replace_count ''Basic '' [] 1 header) = Inl e \<and>
      (e = BinasciiError \<or> e = DecodeTypeError) \<longrightarrow>
      load_user_from_request lib request db = (Inr None, db)) \<and>
   (\<forall>header raw api_key. headers request ''Authorization'' = Some header \<and>
      b64decode lib (replace_count ''Basic '' [] 1 header) = Inr raw \<and>
      decode_utf8 lib raw = Inr api_key \<longrightarrow>
      (case api_keys db (key_id_of api_key) of
         None \<Rightarrow> load_user_from_request lib request db = (Inr None, db)
       | Some db_api_key \<Rightarrow>
           (\<not> verify_key db_api_key api_key \<longrightarrow>
              load_user_from_request lib request db = (Inr None, db)) \<and>
           (verify_key db_api_key api_key \<and> has_expired db_api_key \<longrightarrow>
              load_user_from_request lib request db =
                (Inr None, db\<lparr>api_keys := (api_keys db)(key_id_of api_key := None)\<rparr>))))"
  by (auto simp: load_user_from_request_def caught_on_decode_def Let_def
      split: option.splits)

text \<open>
  A value that decodes to bytes which are no UTF-8 is the case that the statement above
  leaves out: \<open>decode\<close> stands inside the \<open>try\<close>, but what it raises is not among
  the exceptions of the \<open>except\<close> clause, and leaves the loader.
\<close>

lemma load_user_from_request_undecodable:
  "headers request ''Authorization'' = Some header \<Longrightarrow>
   b64decode lib (replace_count ''Basic '' [] 1 header) = Inr raw \<Longrightarrow>
   decode_utf8 lib raw = Inl UnicodeDecodeError \<Longrightarrow>
   load_user_from_request lib request db = (Inl UnicodeDecodeError, db)"
  by (simp add: load_user_from_request_def caught_on_decode_def)

lemma load_user_from_request_byte_ff:
  "load_user_from_request one_codec with_byte_ff expired_db = (Inl UnicodeDecodeError, expired_db)"
  by (simp add: load_user_from_request_def one_codec_def with_byte_ff_def caught_on_decode_def)

theorem load_user_from_request_anonymous_witness:
  "load_user_from_request one_codec with_bad_key expired_db = (Inr None, expired_db) \<and>
   load_user_from_request one_codec with_key expired_db =
     (Inr None, expired_db\<lparr>api_keys := Map.empty\<rparr>)"
proof -
  have bad: "headers with_bad_key ''Authorization'' = Some ''Basic M''"
    "b64decode one_codec (replace_count ''Basic '' [] 1 ''Basic M'') = Inl BinasciiError"
    by (simp_all add: with_bad_key_def one_codec_def)
  have good: "headers with_key ''Authorization'' = Some ''Basic MTpzZWNyZXQ=''"
    "b64decode one_codec (replace_count ''Basic '' [] 1 ''Basic MTpzZWNyZXQ='') =
       Inr ''1:secret''"
    "decode_utf8 one_codec ''1:secret'' = Inr ''1:secret''"
    by (simp_all add: with_key_def one_codec_def)
  have row: "api_keys expired_db (key_id_of ''1:secret'') =
      Some \<lparr>user_id = 7, verify_key = (\<lambda>k. k = ''1:secret''), has_expired = True\<rparr>"
    by (simp add: expired_db_def key_id_of_def)
  have gone: "(api_keys expired_db)(key_id_of ''1:secret'' := None) = Map.empty"
    by (simp add: expired_db_def key_id_of_def)
  from load_user_from_request_anonymous [of with_bad_key one_codec expired_db] bad
  have rejected: "load_user_from_request one_codec with_bad_key expired_db = (Inr None, expired_db)"
    by blast
  from load_user_from_request_anonymous [of with_key one_codec expired_db] good
  have "case api_keys expired_db (key_id_of ''1:secret'') of
         None \<Rightarrow> load_user_from_request one_codec with_key expired_db = (Inr None, expired_db)
       | Some db_api_key \<Rightarrow>
           (\<not> verify_key db_api_key ''1:secret'' \<longrightarrow>
              load_user_from_request one_codec with_key expired_db = (Inr None, expired_db)) \<and>
           (verify_key db_api_key ''1:secret'' \<and> has_expired db_api_key \<longrightarrow>
              load_user_from_request one_codec with_key expired_db =
                (Inr None,
                 expired_db\<lparr>api_keys := (api_keys expired_db)(key_id_of ''1:secret'' := None)\<rparr>))"
    by blast
  then have "load_user_from_request one_codec with_key expired_db =
     (Inr None, expired_db\<lparr>api_keys := Map.empty\<rparr>)"
    by (simp add: row gone)
  with rejected show ?thesis by simp
qed

section \<open>The background task runner\<close>

lemma run_task_turn:
  "time_sleep delay = None \<Longrightarrow> function calls = RaisedException err \<Longrightarrow>
   run_task time_sleep name delay function (Suc turns) calls trace =
     run_task time_sleep name delay function turns (Suc calls)
       (trace @ [Called, Logged (log_message name err), Slept delay])"
  by simp

lemma run_task_refused_delay:
  "time_sleep delay = Some e \<Longrightarrow> function calls = RaisedException err \<Longrightarrow>
   run_task time_sleep name delay function (Suc turns) calls trace =
     (Died e, trace @ [Called, Logged (log_message name err)])"
  by simp

lemma run_task_other:
  "function calls = RaisedOther e \<Longrightarrow>
   run_task time_sleep name delay function (Suc turns) calls trace = (Died e, trace @ [Called])"
  by simp

lemma run_task_always_raising:
  assumes "time_sleep delay = None" "\<forall>k. \<exists>err. function k = RaisedException err"
  shows "run_task time_sleep name delay function turns calls trace =
     (Running, trace @ concat (map (failing_turn name delay function) [calls ..< calls + turns]))"
proof (induction turns arbitrary: calls trace)
  case 0
  show ?case by simp
next
  case (Suc turns)
  from assms(2) obtain err where err: "function calls = RaisedException err" by blast
  have "[calls ..< calls + Suc turns] = calls # [Suc calls ..< Suc calls + turns]"
    by (simp add: upt_rec)
  with err assms(1) Suc.IH [of "Suc calls"] show ?case
    by (simp add: failing_turn_def raised_text_def)
qed

text \<open>
  C6, as stated, fails: the loop catches \<open>Exception\<close> only, and \<open>time.sleep\<close>
  stands outside the \<open>try\<close>. A function whose calls raise SystemExit ends its thread
  at the first call, and so does a function whose calls raise an exception when the
  delay is -1, which \<open>time.sleep\<close> refuses.
\<close>

theorem run_task_dies_counterexample:
  "run_task sleep_60 ''sync'' 60 (\<lambda>k. RaisedOther ''SystemExit'') (Suc 0) 0 [] =
     (Died ''SystemExit'', [Called]) \<and>
   run_task sleep_60 ''sync'' (- 1) (\<lambda>k. RaisedException ''boom'') (Suc 0) 0 [] =
     (Died ''ValueError'',
      [Called, Logged ''Encountered exception in background task sync: boom''])"
  by (simp add: sleep_60_def log_message_def)

text \<open>
  C6, amended. With a delay that \<open>time.sleep\<close> accepts: in a turn of the loop where
  the call raises an instance of \<open>Exception\<close>, the loop logs it with the name of the
  task, sleeps for the delay and goes on to the next call. With a function whose every
  call raises an instance of \<open>Exception\<close> the loop is still running after any number
  of turns, and each turn has called the function, logged and slept.
\<close>

theorem run_task_survives_exceptions:
  "time_sleep delay = None \<longrightarrow>
   (\<forall>turns calls trace err. function calls = RaisedException err \<longrightarrow>
      run_task time_sleep name delay function (Suc turns) calls trace =
        run_task time_sleep name delay function turns (Suc calls)
          (trace @ [Called, Logged (log_message name err), Slept delay])) \<and>
   ((\<forall>k. \<exists>err. function k = RaisedException err) \<longrightarrow>
      (\<forall>turns. run_task time_sleep name delay function turns 0 [] =
         (Running, concat (map (failing_turn name delay function) [0 ..< turns]))))"
proof (intro impI conjI allI)
  assume ok: "time_sleep delay = None"
  show "run_task time_sleep name delay function (Suc turns) calls trace =
        run_task time_sleep name delay function turns (Suc calls)
          (trace @ [Called, Logged (log_message name err), Slept delay])"
    if "function calls = RaisedException err" for turns calls trace err
    using ok that by simp
  show "run_task time_sleep name delay function turns 0 [] =
      (Running, concat (map (failing_turn name delay function) [0 ..< turns]))"
    if "\<forall>k. \<exists>err. function k = RaisedException err" for turns
    using run_task_always_raising [of time_sleep delay "function" name turns 0 "[]"] ok that
    by simp
qed

theorem run_task_survives_exceptions_witness:
  "sleep_60 60 = None \<and>
   run_task sleep_60 ''sync'' 60 (\<lambda>k. RaisedException ''boom'') 2 0 [] =
     (Running,
      [Called, Logged ''Encountered exception in background task sync: boom'', Slept 60,
       Called, Logged ''Encountered exception in background task sync: boom'', Slept 60])"
proof -
  have ok: "sleep_60 60 = None"
    by (simp add: sleep_60_def)
  moreover have "\<forall>k. \<exists>err. (\<lambda>k::nat. RaisedException ''boom'') k = RaisedException err"
    by simp
  ultimately have "run_task sleep_60 ''sync'' 60 (\<lambda>k. RaisedException ''boom'') 2 0 [] =
      (Running, concat (map (failing_turn ''sync'' 60 (\<lambda>k. RaisedException ''boom'')) [0 ..< 2]))"
    using run_task_survives_exceptions
      [of sleep_60 60 "\<lambda>k. RaisedException ''boom''" "''sync''"]
    by blast
  with ok show ?thesis
    by (simp add: failing_turn_def raised_text_def log_message_def upt_rec numeral_2_eq_2)
qed

end
